theory Spec2Isabelle
  imports Complex_Main "HOL-Library.Product_Lexorder" "HOL-Library.Sublist"
begin

section \<open>Python values shared by the components\<close>

text \<open>
  The agents and the two stores exchange Python dictionaries. A dictionary with a fixed set
  of keys is a record below; a dictionary whose content is free (a log payload, the parsed
  answer of the language model, caller-supplied metadata) is a \<open>pyval\<close>, a dictionary
  being an association list in insertion order. A finite Python \<open>float\<close> is kept as
  the real number it denotes; the arithmetic on floats, which rounds, is modelled with the
  semantic store, the one component that computes with them.
\<close>

datatype pyval =
    PNone
  | PBool bool
  | PInt int
  | PFloat real
  | PStr string
  | PList "pyval list"
  | PDict "(string \<times> pyval) list"

datatype error = TypeError | ValueError | AttributeError | LLMError

text \<open>\<open>xs[:n]\<close>: a negative bound counts from the end of the list.\<close>

definition py_slice_to :: "int \<Rightarrow> 'a list \<Rightarrow> 'a list" where
  "py_slice_to n xs =
     (if 0 \<le> n then take (nat n) xs else take (length xs - nat (- n)) xs)"

text \<open>\<open>str(n)\<close> for an integer: decimal digits, most significant first, \<open>-\<close> in front of a
  negative number.\<close>

definition digit_char :: "nat \<Rightarrow> char" where
  "digit_char d = ''0123456789'' ! d"

fun str_nat :: "nat \<Rightarrow> string" where
  "str_nat n = (if n < 10 then [digit_char n] else str_nat (n div 10) @ [digit_char (n mod 10)])"

definition str_int :: "int \<Rightarrow> string" where
  "str_int i = (if i < 0 then CHR ''-'' # str_nat (nat (- i)) else str_nat (nat i))"

section \<open>The episodic store (storage/knowledge\_graph.py)\<close>

record action_entry =
  ae_agent :: string
  ae_action :: string
  ae_timestamp :: string
  ae_session_id :: "string option"
  ae_data :: pyval

record session =
  s_id :: string
  s_query :: string
  s_started :: string
  s_ended :: "string option"
  s_status :: string
  s_actions :: "action_entry list"

text \<open>An agent's entry is created with \<open>first_seen\<close> and \<open>action_count\<close>; \<open>last_seen\<close> is
  a key added by the assignment that follows, so it is optional in the record.\<close>

record agent_stats =
  first_seen :: string
  action_count :: int
  last_seen :: "string option"

record graph_doc =
  g_metadata :: "(string \<times> pyval) list"
  sessions :: "session list"
  agents :: "string \<rightharpoonup> agent_stats"
  actions :: "action_entry list"

record KnowledgeGraph =
  storage_path :: string
  graph :: graph_doc
  current_session_id :: "string option"

text \<open>
  \<open>_save\<close> serialises \<open>graph\<close> to \<open>storage_path\<close> and catches every exception of the
  write; the in-memory document is the same before and after it, so the operations below
  return the document they pass to \<open>_save\<close>. The clock readings of \<open>datetime.now()\<close>
  are arguments: \<open>now_ts\<close> is \<open>int(datetime.now().timestamp())\<close>, \<open>now\<close> (or \<open>now_iso\<close>) is
  \<open>datetime.now().isoformat()\<close>.
\<close>

definition session_id_str :: "nat \<Rightarrow> int \<Rightarrow> string" where
  "session_id_str n ts = ''session_'' @ str_nat n @ ''_'' @ str_int ts"

definition start_session ::
  "KnowledgeGraph \<Rightarrow> string \<Rightarrow> int \<Rightarrow> string \<Rightarrow> string \<times> KnowledgeGraph" where
  "start_session kg query now_ts now_iso =
     (let session_id = session_id_str (length (sessions (graph kg)) + 1) now_ts;
          session = \<lparr>s_id = session_id, s_query = query, s_started = now_iso,
                     s_ended = None, s_status = ''active'', s_actions = []\<rparr>;
          g = (graph kg)\<lparr>sessions := sessions (graph kg) @ [session]\<rparr>
      in (session_id, kg\<lparr>graph := g, current_session_id := Some session_id\<rparr>))"

text \<open>The loop of \<open>end_session\<close> updates the first session with the given id and breaks.\<close>

fun end_first :: "string \<Rightarrow> string \<Rightarrow> string \<Rightarrow> session list \<Rightarrow> session list" where
  "end_first sid st now_iso [] = []"
| "end_first sid st now_iso (s # ss) =
     (if s_id s = sid then s\<lparr>s_ended := Some now_iso, s_status := st\<rparr> # ss
      else s # end_first sid st now_iso ss)"

definition end_session ::
  "KnowledgeGraph \<Rightarrow> string \<Rightarrow> string \<Rightarrow> string \<Rightarrow> KnowledgeGraph" where
  "end_session kg session_id st now_iso =
     kg\<lparr>graph := (graph kg)\<lparr>sessions := end_first session_id st now_iso (sessions (graph kg))\<rparr>\<rparr>"

text \<open>The loop of \<open>log_agent_action\<close> appends the entry to the first session whose id is
  the current one and breaks.\<close>

fun append_to_session :: "string \<Rightarrow> action_entry \<Rightarrow> session list \<Rightarrow> session list" where
  "append_to_session sid e [] = []"
| "append_to_session sid e (s # ss) =
     (if s_id s = sid then s\<lparr>s_actions := s_actions s @ [e]\<rparr> # ss
      else s # append_to_session sid e ss)"

definition log_agent_action ::
  "KnowledgeGraph \<Rightarrow> string \<Rightarrow> string \<Rightarrow> pyval \<Rightarrow> string option \<Rightarrow> string \<Rightarrow> KnowledgeGraph" where
  "log_agent_action kg agent act dat timestamp now =
     (let ts = (case timestamp of None \<Rightarrow> now | Some t \<Rightarrow> t);
          action_entry = \<lparr>ae_agent = agent, ae_action = act, ae_timestamp = ts,
                          ae_session_id = current_session_id kg, ae_data = dat\<rparr>;
          g1 = (graph kg)\<lparr>actions := actions (graph kg) @ [action_entry]\<rparr>;
          g2 = (case current_session_id kg of
                  None \<Rightarrow> g1
                | Some sid \<Rightarrow>
                    if sid = [] then g1
                    else g1\<lparr>sessions := append_to_session sid action_entry (sessions g1)\<rparr>);
          g3 = (case agents g2 agent of
                  None \<Rightarrow> g2\<lparr>agents := (agents g2)
                            (agent \<mapsto> \<lparr>first_seen = ts, action_count = 0, last_seen = None\<rparr>)\<rparr>
                | Some _ \<Rightarrow> g2);
          g4 = (case agents g3 agent of
                  None \<Rightarrow> g3
                | Some st \<Rightarrow> g3\<lparr>agents := (agents g3)
                            (agent \<mapsto> st\<lparr>action_count := action_count st + 1,
                                           last_seen := Some ts\<rparr>)\<rparr>)
      in kg\<lparr>graph := g4\<rparr>)"

text \<open>Every agent logs through the same helper: nothing happens without a store.\<close>

definition log_action ::
  "string \<Rightarrow> KnowledgeGraph option \<Rightarrow> string \<Rightarrow> pyval \<Rightarrow> string \<Rightarrow> KnowledgeGraph option" where
  "log_action name kg act dat now =
     (case kg of
        None \<Rightarrow> None
      | Some g \<Rightarrow> Some (log_agent_action g name act dat (Some now) now))"

text \<open>One call on the store, as a caller of one process makes them, and a run of calls
  collecting the ids that \<open>start_session\<close> returned.\<close>

datatype kg_op =
    StartSession string int string
  | EndSession string string string
  | LogAgentAction string string pyval "string option" string

fun run_ops :: "KnowledgeGraph \<Rightarrow> kg_op list \<Rightarrow> string list \<times> KnowledgeGraph" where
  "run_ops kg [] = ([], kg)"
| "run_ops kg (StartSession q ts t_iso # ops) =
     (let (sid, kg') = start_session kg q ts t_iso; (ids, kg'') = run_ops kg' ops
      in (sid # ids, kg''))"
| "run_ops kg (EndSession sid st t_iso # ops) = run_ops (end_session kg sid st t_iso) ops"
| "run_ops kg (LogAgentAction a act d t now # ops) =
     run_ops (log_agent_action kg a act d t now) ops"

section \<open>The planner (agents/planner.py)\<close>

record subtask =
  st_id :: int
  st_type :: string
  st_description :: string
  st_query :: "string option"
  st_priority :: string
  st_depends_on :: "int list option"

definition decompose_query :: "string \<Rightarrow> subtask list" where
  "decompose_query query =
     [\<lparr>st_id = 1, st_type = ''search'',
       st_description = ''Search for current information about: '' @ query,
       st_query = Some query, st_priority = ''high'', st_depends_on = None\<rparr>,
      \<lparr>st_id = 2, st_type = ''search'',
       st_description = ''Find recent trends and developments related to: '' @ query,
       st_query = Some (''recent trends '' @ query), st_priority = ''medium'',
       st_depends_on = None\<rparr>,
      \<lparr>st_id = 3, st_type = ''search'',
       st_description = ''Gather expert opinions and analysis on: '' @ query,
       st_query = Some (''expert analysis '' @ query), st_priority = ''medium'',
       st_depends_on = None\<rparr>,
      \<lparr>st_id = 4, st_type = ''summarize'',
       st_description = ''Synthesize all gathered information'',
       st_query = None, st_priority = ''high'', st_depends_on = Some [1, 2, 3]\<rparr>,
      \<lparr>st_id = 5, st_type = ''write'',
       st_description = ''Generate comprehensive research report'',
       st_query = None, st_priority = ''high'', st_depends_on = Some [4]\<rparr>]"

text \<open>The dictionary of a subtask as it is logged: absent keys are left out.\<close>

definition subtask_val :: "subtask \<Rightarrow> pyval" where
  "subtask_val t =
     PDict ([(''id'', PInt (st_id t)), (''type'', PStr (st_type t)),
             (''description'', PStr (st_description t))]
            @ (case st_query t of None \<Rightarrow> [] | Some q \<Rightarrow> [(''query'', PStr q)])
            @ [(''priority'', PStr (st_priority t))]
            @ (case st_depends_on t of None \<Rightarrow> []
               | Some ds \<Rightarrow> [(''depends_on'', PList (map PInt ds))]))"

text \<open>\<open>plan\<close> logs, decomposes, logs again and returns the subtasks; \<open>now1\<close> and \<open>now2\<close>
  are the clock readings of the two log calls.\<close>

definition plan ::
  "KnowledgeGraph option \<Rightarrow> string \<Rightarrow> string \<Rightarrow> string \<Rightarrow> subtask list \<times> KnowledgeGraph option" where
  "plan kg query now1 now2 =
     (let kg1 = log_action ''PlannerAgent'' kg ''planning_started'' (PDict [(''query'', PStr query)]) now1;
          subtasks = decompose_query query;
          kg2 = log_action ''PlannerAgent'' kg1 ''planning_completed''
                  (PDict [(''query'', PStr query),
                          (''subtask_count'', PInt (int (length subtasks))),
                          (''subtasks'', PList (map subtask_val subtasks))]) now2
      in (subtasks, kg2))"


section \<open>The search agent (agents/search.py)\<close>

text \<open>
  A record of the search provider, with the keys the agent reads; an absent key is \<open>None\<close>.
  A provider call is a function of the query and the cap: the list of records it yields
  before it stops or fails (the agent keeps what it has appended when the provider raises).
\<close>

record raw_result =
  r_title :: "string option"
  r_body :: "string option"
  r_href :: "string option"
  r_url :: "string option"
  r_date :: "string option"

type_synonym provider = "string \<Rightarrow> int \<Rightarrow> raw_result list"

text \<open>A search result; the agents read it with \<open>get\<close> and a default, so every key is
  optional.\<close>

record search_result =
  rank :: "int option"
  title :: "string option"
  snippet :: "string option"
  url :: "string option"
  source :: "string option"
  date :: "string option"
  search_type :: "string option"

record SearchAgent =
  sa_knowledge_graph :: "KnowledgeGraph option"
  sa_max_results :: int

text \<open>\<open>d.get(key, default)\<close> on an optional key, and \<open>x or default\<close> on an optional integer:
  \<open>None\<close> and \<open>0\<close> are both false.\<close>

definition get_or :: "'a option \<Rightarrow> 'a \<Rightarrow> 'a" where
  "get_or v d = (case v of None \<Rightarrow> d | Some x \<Rightarrow> x)"

definition or_default :: "int option \<Rightarrow> int \<Rightarrow> int" where
  "or_default v d = (case v of None \<Rightarrow> d | Some n \<Rightarrow> if n = 0 then d else n)"

definition execute_search :: "provider \<Rightarrow> string \<Rightarrow> int \<Rightarrow> search_result list" where
  "execute_search ddgs_text query max_results =
     map (\<lambda>(idx, result).
            \<lparr>rank = Some (int idx + 1),
             title = Some (get_or (r_title result) ''No title''),
             snippet = Some (get_or (r_body result) ''No description''),
             url = Some (get_or (r_href result) []),
             source = Some ''duckduckgo'',
             date = None,
             search_type = None\<rparr>)
         (enumerate 0 (ddgs_text query max_results))"

definition search_news ::
  "SearchAgent \<Rightarrow> provider \<Rightarrow> string \<Rightarrow> int option \<Rightarrow> search_result list" where
  "search_news self ddgs_news query max_results =
     (let max_results = or_default max_results (sa_max_results self)
      in map (\<lambda>(idx, result).
                \<lparr>rank = Some (int idx + 1),
                 title = Some (get_or (r_title result) ''No title''),
                 snippet = Some (get_or (r_body result) ''No description''),
                 url = Some (get_or (r_url result) []),
                 source = Some ''news'',
                 date = Some (get_or (r_date result) []),
                 search_type = Some ''news''\<rparr>)
             (enumerate 0 (ddgs_news query max_results)))"

text \<open>The first half of \<open>multi_source_search\<close>: the web results, then the news results when
  they are asked for, at half the cap.\<close>

definition gather_results ::
  "SearchAgent \<Rightarrow> provider \<Rightarrow> provider \<Rightarrow> string \<Rightarrow> int option \<Rightarrow> bool \<Rightarrow> search_result list" where
  "gather_results self ddgs_text ddgs_news query max_results include_news =
     (let max_results = or_default max_results (sa_max_results self);
          web_results = execute_search ddgs_text query max_results
      in if include_news
         then web_results @ search_news self ddgs_news query (Some (max_results div 2))
         else web_results)"

text \<open>\<open>result.get("url", "")\<close>, the key of the de-duplication, and the loop itself with its
  two variables \<open>seen_urls\<close> and \<open>unique_results\<close>.\<close>

definition url_of :: "search_result \<Rightarrow> string" where
  "url_of result = get_or (url result) []"

fun dedup_loop ::
  "string set \<Rightarrow> search_result list \<Rightarrow> search_result list \<Rightarrow> search_result list" where
  "dedup_loop seen_urls unique_results [] = unique_results"
| "dedup_loop seen_urls unique_results (result # rest) =
     (let u = url_of result
      in if u \<noteq> [] \<and> u \<notin> seen_urls
         then dedup_loop (insert u seen_urls) (unique_results @ [result]) rest
         else dedup_loop seen_urls unique_results rest)"

text \<open>The key of the sort: \<open>-1\<close> for a news result and \<open>0\<close> otherwise, then the rank
  (\<open>999\<close> without one); pairs compare lexicographically, as Python's tuples do.
  \<open>list.sort\<close> is stable, as \<open>sort_key\<close> is.\<close>

definition result_key :: "search_result \<Rightarrow> int \<times> int" where
  "result_key x = (if search_type x = Some ''news'' then - 1 else 0, get_or (rank x) 999)"

definition multi_source_search ::
  "SearchAgent \<Rightarrow> provider \<Rightarrow> provider \<Rightarrow> string \<Rightarrow> int option \<Rightarrow> bool \<Rightarrow> search_result list" where
  "multi_source_search self ddgs_text ddgs_news query max_results include_news =
     (let all_results = gather_results self ddgs_text ddgs_news query max_results include_news;
          max_results = or_default max_results (sa_max_results self);
          unique_results = dedup_loop {} [] all_results
      in py_slice_to (max_results * 2) (sort_key result_key unique_results))"

text \<open>Test inputs: an agent with the default cap; a web provider whose second and fourth
  records have no link and whose third repeats the first link; a news provider whose second
  record repeats a web link.\<close>

definition demo_agent :: SearchAgent where
  "demo_agent = \<lparr>sa_knowledge_graph = None, sa_max_results = 5\<rparr>"

definition raw :: "string \<Rightarrow> string option \<Rightarrow> raw_result" where
  "raw t link = \<lparr>r_title = Some t, r_body = Some ''body'', r_href = link, r_url = link,
                 r_date = None\<rparr>"

definition demo_web :: provider where
  "demo_web query max_results =
     [raw ''w1'' (Some ''https://a.example''), raw ''w2'' None,
      raw ''w3'' (Some ''https://a.example''), raw ''w4'' (Some []),
      raw ''w5'' (Some ''https://b.example'')]"

definition demo_news :: provider where
  "demo_news query max_results =
     [raw ''n1'' (Some ''https://c.example''), raw ''n2'' (Some ''https://b.example'')]"

section \<open>The summarizer (agents/summarizer.py)\<close>

record source_entry =
  src_title :: string
  src_url :: string

text \<open>The summary dictionary. \<open>key_findings\<close> is a list of dictionaries in heuristic mode
  and whatever the model's answer holds under that key otherwise; the last three keys are
  present in the model-assisted summary only.\<close>

record summary =
  key_findings :: pyval
  source_count :: int
  sources :: "source_entry list"
  synthesis_method :: string
  summary_text :: "pyval option"
  themes :: "pyval option"
  credibility_notes :: "pyval option"

text \<open>Flattening: the loop that extends \<open>all_results\<close> by each list in turn.\<close>

fun extend_all :: "'a list \<Rightarrow> 'a list list \<Rightarrow> 'a list" where
  "extend_all all_results [] = all_results"
| "extend_all all_results (result_list # rest) = extend_all (all_results @ result_list) rest"

definition finding_of :: "search_result \<Rightarrow> pyval" where
  "finding_of result =
     PDict [(''point'', PStr (take 200 (get_or (snippet result) []))),
            (''source'', PStr (get_or (title result) ''Unknown'')),
            (''url'', PStr (get_or (url result) []))]"

definition source_of :: "search_result \<Rightarrow> source_entry" where
  "source_of result =
     \<lparr>src_title = get_or (title result) ''Unknown'', src_url = get_or (url result) []\<rparr>"

text \<open>The loop of heuristic mode, over the first ten results, with its two lists \<open>key_findings\<close> and \<open>sources\<close>.\<close>

fun findings_loop ::
  "pyval list \<Rightarrow> source_entry list \<Rightarrow> search_result list \<Rightarrow> pyval list \<times> source_entry list" where
  "findings_loop findings srcs [] = (findings, srcs)"
| "findings_loop findings srcs (result # rest) =
     findings_loop (findings @ [finding_of result])
       (if get_or (url result) [] \<noteq> [] then srcs @ [source_of result] else srcs)
       rest"

definition synthesize_information :: "search_result list list \<Rightarrow> summary" where
  "synthesize_information search_results =
     (let all_results = extend_all [] search_results;
          (findings, srcs) = findings_loop [] [] (take 10 all_results)
      in \<lparr>key_findings = PList findings,
          source_count = int (length all_results),
          sources = take 15 srcs,
          synthesis_method = ''heuristic_extraction'',
          summary_text = None, themes = None, credibility_notes = None\<rparr>)"


subsection \<open>The model-assisted path\<close>

text \<open>
  The language-model client answers a prompt with a text or raises (a failing import of the
  message class, inside the same \<open>try\<close>, counts as a raise of the call); \<open>json.loads\<close> is
  a library function and is taken as a parameter. A \<open>string\<close> stands for the sequence of
  code points of the Python string, one \<open>char\<close> each: the code compares, joins and slices
  strings and never looks inside a character.
\<close>

type_synonym llm_client = "string \<Rightarrow> error + string"
type_synonym json_parser = "string \<Rightarrow> error + pyval"

record SummarizerAgent =
  sm_knowledge_graph :: "KnowledgeGraph option"
  use_llm :: bool
  llm_client :: "llm_client option"

text \<open>\<open>find_sep sep s\<close> is the text before and the text after the first occurrence of \<open>sep\<close>
  in \<open>s\<close>; \<open>sep in s\<close> asks whether there is one; \<open>s.split(sep)\<close> cuts at every
  occurrence, left to right (the separators of the code are not empty).\<close>

fun find_sep :: "string \<Rightarrow> string \<Rightarrow> (string \<times> string) option" where
  "find_sep sep [] = (if sep = [] then Some ([], []) else None)"
| "find_sep sep (c # cs) =
     (if prefix sep (c # cs) then Some ([], drop (length sep) (c # cs))
      else map_option (\<lambda>(before, after). (c # before, after)) (find_sep sep cs))"

definition py_in :: "string \<Rightarrow> string \<Rightarrow> bool" where
  "py_in sep s = (find_sep sep s \<noteq> None)"

lemma find_sep_shorter:
  "find_sep sep s = Some (before, after) \<Longrightarrow> sep \<noteq> [] \<Longrightarrow> length after < length s"
proof (induction s arbitrary: before)
  case Nil
  then show ?case by simp
next
  case (Cons c cs)
  show ?case
  proof (cases "prefix sep (c # cs)")
    case True
    with Cons.prems show ?thesis by auto
  next
    case False
    with Cons.prems obtain b where "find_sep sep cs = Some (b, after)" by auto
    from Cons.IH [OF this Cons.prems(2)] show ?thesis by simp
  qed
qed

function py_split :: "string \<Rightarrow> string \<Rightarrow> string list" where
  "py_split sep s =
     (if sep = [] then [s]
      else case find_sep sep s of
             None \<Rightarrow> [s]
           | Some (before, after) \<Rightarrow> before # py_split sep after)"
  by pat_completeness auto
termination
  by (relation "measure (\<lambda>(sep, s). length s)") (auto dest: find_sep_shorter)

text \<open>\<open>s.strip()\<close> removes the white space at both ends: the characters for which
  \<open>str.isspace\<close> holds, among the first 256 code points.\<close>

definition is_space :: "char \<Rightarrow> bool" where
  "is_space c = ((of_char c :: nat) \<in> {9, 10, 11, 12, 13, 28, 29, 30, 31, 32, 133, 160})"

definition py_strip :: "string \<Rightarrow> string" where
  "py_strip s = rev (dropWhile is_space (rev (dropWhile is_space s)))"

text \<open>\<open>xs[1]\<close> and \<open>xs[0]\<close>, raising where the list is too short.\<close>

definition second :: "'a list \<Rightarrow> error + 'a" where
  "second xs = (case xs of _ # x # _ \<Rightarrow> Inr x | _ \<Rightarrow> Inl ValueError)"

definition first :: "'a list \<Rightarrow> error + 'a" where
  "first xs = (case xs of x # _ \<Rightarrow> Inr x | _ \<Rightarrow> Inl ValueError)"

definition fence :: string where
  "fence = [CHR 0x60, CHR 0x60, CHR 0x60]"

text \<open>The text between the first fence and the next one, stripped; the whole answer when it
  has no fence.\<close>

definition between_fences :: "string \<Rightarrow> string \<Rightarrow> error + string" where
  "between_fences opening result_text =
     (case second (py_split opening result_text) of
        Inl e \<Rightarrow> Inl e
      | Inr inner \<Rightarrow>
          (case first (py_split fence inner) of
             Inl e \<Rightarrow> Inl e
           | Inr body \<Rightarrow> Inr (py_strip body)))"

definition extract_json :: "string \<Rightarrow> error + string" where
  "extract_json result_text =
     (if py_in (fence @ ''json'') result_text then between_fences (fence @ ''json'') result_text
      else if py_in fence result_text then between_fences fence result_text
      else Inr result_text)"

text \<open>\<open>sep.join(parts)\<close>, the context block of the first fifteen results and the prompt
  around it.\<close>

fun py_join :: "string \<Rightarrow> string list \<Rightarrow> string" where
  "py_join sep [] = []"
| "py_join sep [x] = x"
| "py_join sep (x # y # ys) = x @ sep @ py_join sep (y # ys)"

definition nl :: string where
  "nl = [CHR 0x0A]"

definition quoted :: "string \<Rightarrow> string" where
  "quoted s = [CHR 0x22] @ s @ [CHR 0x22]"

definition context_part :: "nat \<times> search_result \<Rightarrow> string" where
  "context_part = (\<lambda>(idx, result).
     ''Source '' @ str_nat idx @ '': '' @ get_or (title result) ''Unknown'' @ nl
     @ ''URL: '' @ get_or (url result) ''N/A'' @ nl
     @ ''Content: '' @ get_or (snippet result) ''No description'' @ nl)"

definition llm_prompt :: "search_result list \<Rightarrow> string" where
  "llm_prompt all_results =
     (let context = py_join nl (map context_part (enumerate 1 (take 15 all_results)))
      in py_join nl
          [''You are a research analyst synthesizing information from multiple sources.'',
           [],
           ''Based on the following sources, extract and summarize the key findings:'',
           [],
           context,
           [],
           ''Provide your analysis in the following JSON format:'',
           ''{'',
           ''    '' @ quoted ''key_findings'' @ '': ['',
           ''        {'',
           ''            '' @ quoted ''point'' @ '': '' @ quoted ''Key insight or finding'' @ '','',
           ''            '' @ quoted ''source'' @ '': '' @ quoted ''Source title'' @ '','',
           ''            '' @ quoted ''url'' @ '': '' @ quoted ''Source URL'' @ '','',
           ''            '' @ quoted ''credibility'' @ '': '' @ quoted ''high|medium|low'',
           ''        }'',
           ''    ],'',
           ''    '' @ quoted ''summary'' @ '': '' @ quoted ''Overall summary paragraph'' @ '','',
           ''    '' @ quoted ''themes'' @ '': ['' @ quoted ''theme1'' @ '', '' @ quoted ''theme2''
             @ ''],'',
           ''    '' @ quoted ''credibility_notes'' @ '': '' @ quoted ''Notes on source reliability'',
           ''}'',
           [],
           ''Extract 5-8 key findings. Focus on factual information with proper attribution.''])"

text \<open>The answer of the client, cut out of its fence and parsed.\<close>

definition llm_parse :: "json_parser \<Rightarrow> string \<Rightarrow> error + pyval" where
  "llm_parse json_loads content =
     (case extract_json content of
        Inl e \<Rightarrow> Inl e
      | Inr result_text \<Rightarrow> json_loads result_text)"

text \<open>\<open>d.get(key, default)\<close> on a parsed dictionary, and the loop that collects the sources
  of the first fifteen results.\<close>

definition dict_get :: "(string \<times> pyval) list \<Rightarrow> string \<Rightarrow> pyval \<Rightarrow> pyval" where
  "dict_get d k dflt = (case map_of d k of None \<Rightarrow> dflt | Some v \<Rightarrow> v)"

fun sources_loop :: "source_entry list \<Rightarrow> search_result list \<Rightarrow> source_entry list" where
  "sources_loop srcs [] = srcs"
| "sources_loop srcs (result # rest) =
     sources_loop (if get_or (url result) [] \<noteq> [] then srcs @ [source_of result] else srcs) rest"

text \<open>The body of the \<open>try\<close>: \<open>Inl\<close> is the exception that the \<open>except\<close> clause catches.
  \<open>get\<close> exists on a dictionary only: any other parsed value raises \<open>AttributeError\<close>.\<close>

definition llm_try ::
  "json_parser \<Rightarrow> llm_client \<Rightarrow> search_result list \<Rightarrow> error + summary" where
  "llm_try json_loads client all_results =
     (case client (llm_prompt all_results) of
        Inl e \<Rightarrow> Inl e
      | Inr content \<Rightarrow>
          (case llm_parse json_loads content of
             Inl e \<Rightarrow> Inl e
           | Inr llm_result \<Rightarrow>
               (let srcs = sources_loop [] (take 15 all_results)
                in case llm_result of
                     PDict d \<Rightarrow>
                       Inr \<lparr>key_findings = dict_get d ''key_findings'' (PList []),
                            source_count = int (length all_results),
                            sources = srcs,
                            synthesis_method = ''llm'',
                            summary_text = Some (dict_get d ''summary'' (PStr [])),
                            themes = Some (dict_get d ''themes'' (PList [])),
                            credibility_notes = Some (dict_get d ''credibility_notes'' (PStr []))\<rparr>
                   | _ \<Rightarrow> Inl AttributeError)))"

definition synthesize_with_llm ::
  "json_parser \<Rightarrow> llm_client \<Rightarrow> search_result list list \<Rightarrow> summary" where
  "synthesize_with_llm json_loads client search_results =
     (let all_results = extend_all [] search_results
      in if all_results = [] then synthesize_information search_results
         else case llm_try json_loads client all_results of
                Inl e \<Rightarrow> synthesize_information search_results
              | Inr s \<Rightarrow> s)"

text \<open>\<open>len(x)\<close>: defined on strings, lists and dictionaries, a \<open>TypeError\<close> otherwise.\<close>

fun py_len :: "pyval \<Rightarrow> error + nat" where
  "py_len (PStr s) = Inr (length s)"
| "py_len (PList xs) = Inr (length xs)"
| "py_len (PDict d) = Inr (length d)"
| "py_len _ = Inl TypeError"

text \<open>\<open>summarize\<close>: log, synthesize, log, return. The arguments of the second log call
  are evaluated before the call, with or without a store, so a \<open>key_findings\<close> without a
  length raises out of \<open>summarize\<close>.\<close>

definition summarize ::
  "SummarizerAgent \<Rightarrow> json_parser \<Rightarrow> search_result list list \<Rightarrow> string \<Rightarrow> string
     \<Rightarrow> (error + summary) \<times> KnowledgeGraph option" where
  "summarize self json_loads search_results now1 now2 =
     (let kg1 = log_action ''SummarizerAgent'' (sm_knowledge_graph self) ''summarization_started''
                  (PDict [(''source_count'', PInt (int (length search_results))),
                          (''using_llm'', PBool (use_llm self \<and> llm_client self \<noteq> None))]) now1;
          s = (case llm_client self of
                 Some client \<Rightarrow> synthesize_with_llm json_loads client search_results
               | None \<Rightarrow> synthesize_information search_results)
      in case py_len (key_findings s) of
           Inl e \<Rightarrow> (Inl e, kg1)
         | Inr key_points \<Rightarrow>
             (Inr s,
              log_action ''SummarizerAgent'' kg1 ''summarization_completed''
                (PDict [(''source_count'', PInt (int (length search_results))),
                        (''key_points'', PInt (int key_points)),
                        (''method'', PStr (if llm_client self \<noteq> None then ''llm''
                                          else ''heuristic''))]) now2))"

text \<open>A test input: the \<open>i\<close>-th of a run of web results with pairwise different URLs.\<close>

definition numbered_result :: "nat \<Rightarrow> search_result" where
  "numbered_result i =
     \<lparr>rank = Some (int i), title = Some (''Title '' @ str_nat i), snippet = Some ''text'',
      url = Some (''https://example.org/'' @ str_nat i), source = Some ''duckduckgo'',
      date = None, search_type = None\<rparr>"

text \<open>Test inputs: an answer that is a JSON object whose \<open>key_findings\<close> is a string, a
  parser that knows this one text, and agents whose client returns it, returns prose, or
  raises.\<close>

definition odd_answer :: string where
  "odd_answer = ''{'' @ quoted ''key_findings'' @ '': '' @ quoted ''none'' @ ''}''"

definition demo_json_loads :: json_parser where
  "demo_json_loads t =
     (if t = odd_answer then Inr (PDict [(''key_findings'', PStr ''none'')]) else Inl ValueError)"

definition agent_with :: "llm_client \<Rightarrow> SummarizerAgent" where
  "agent_with client = \<lparr>sm_knowledge_graph = None, use_llm = True, llm_client = Some client\<rparr>"

section \<open>The semantic store (storage/memory.py)\<close>

text \<open>
  A metadata record is a Python dictionary, and \<open>search\<close> copies the dictionaries it
  returns before it writes the score into them. To say what that copy is for, dictionaries
  live in an object store: a reference is a number, \<open>objects\<close> maps a reference to the
  dictionary it holds and \<open>next_ref\<close> is the first unused reference. The list
  \<open>metadata\<close> of the store holds references. A vector is a list of numbers, which the
  code never updates in place once it is stored.
\<close>

type_synonym dict = "(string \<times> pyval) list"





text \<open>
  Floating point. The numbers of the store are IEEE 754 doubles. A finite double is a real
  number and is kept as that number, but the arithmetic of doubles rounds: it is not the
  arithmetic of the reals. The rounding operations that the store uses are therefore
  parameters of the model, gathered in a record: the product and the quotient of two
  doubles, \<open>np.dot\<close> of two arrays of the same length and \<open>np.linalg.norm\<close> of an array.
  What is proved for every \<open>float_ops\<close> holds whatever the platform computes; the
  round-to-nearest arithmetic itself is \<open>ieee_ops\<close> below. Comparisons, negation, the
  constants \<open>0.0\<close> and \<open>1.0\<close> and the quotient \<open>ord(char) / 256.0\<close> (a character code over a
  power of two) are exact and stay those of the reals. Infinities and NaN are no numbers of
  the model; none arises from vectors whose components lie between \<open>-1\<close> and \<open>1\<close>, as those
  of the embedding do.
\<close>

record float_ops =
  f_mul :: "real \<Rightarrow> real \<Rightarrow> real"
  f_div :: "real \<Rightarrow> real \<Rightarrow> real"
  f_dot :: "real list \<Rightarrow> real list \<Rightarrow> real"
  f_norm :: "real list \<Rightarrow> real"


text \<open>\<open>str.lower\<close> on the first 256 code points: the capital letters of ASCII and of
  Latin-1 move up by 32.\<close>

definition lower_char :: "char \<Rightarrow> char" where
  "lower_char c =
     (let n = (of_char c :: nat)
      in if (65 \<le> n \<and> n \<le> 90) \<or> (192 \<le> n \<and> n \<le> 222 \<and> n \<noteq> 215)
         then char_of (n + 32) else c)"

definition py_lower :: "string \<Rightarrow> string" where
  "py_lower s = map lower_char s"


text \<open>The embedding, in two steps: the vector of the character codes with the marker
  \<open>1.0\<close> at the index chosen by the hash, then its normalisation. \<open>hash\<close> is Python's string
  hash, fixed within one process and otherwise unknown: a parameter. \<open>%\<close> and \<open>mod\<close> both
  give a result between 0 and 127.\<close>

fun fill_chars :: "real list \<Rightarrow> (nat \<times> char) list \<Rightarrow> real list" where
  "fill_chars embedding [] = embedding"
| "fill_chars embedding ((i, c) # rest) =
     fill_chars (embedding[i := real (of_char c) / 256]) rest"

definition marked_vector :: "(string \<Rightarrow> int) \<Rightarrow> string \<Rightarrow> real list" where
  "marked_vector hash text =
     (let embedding = fill_chars (replicate 128 0) (enumerate 0 (take 128 text));
          text_hash = nat (hash text mod 128)
      in embedding[text_hash := 1])"

definition simple_embedding :: "float_ops \<Rightarrow> (string \<Rightarrow> int) \<Rightarrow> string \<Rightarrow> real list" where
  "simple_embedding ops hash text =
     (let text = py_lower text;
          embedding = marked_vector hash text;
          norm = f_norm ops embedding
      in if norm > 0 then map (\<lambda>x. f_div ops x norm) embedding else embedding)"



datatype write_outcome = Written | NotOpened | Truncated









text \<open>A run of calls on one store and its file.\<close>

datatype vm_op = Store string dict write_outcome | Search string int | Load





subsection \<open>Round-to-nearest double arithmetic\<close>

text \<open>
  \<open>rnd x\<close> is the double nearest to the real \<open>x\<close>, ties going to the even significand: with
  \<open>e\<close> the exponent of \<open>x\<close> (\<open>2 powi e \<le> x < 2 powi (e + 1)\<close>), the doubles around \<open>x\<close> are
  the multiples of \<open>2 powi (e - 52)\<close>, and of \<open>2 powi (- 1074)\<close> in the subnormal range.
  The largest exponent is not modelled: a double never overflows here. IEEE 754 asks that
  a product, a quotient, a sum and a square root be the exact result rounded; \<open>rnd_sqrt\<close>
  rounds the root from an integer square root with 61 bits, which is more than a double
  holds. \<open>np.linalg.norm\<close> of an array \<open>x\<close> is \<open>sqrt(dot(x, x))\<close>, and \<open>np.dot\<close> is taken
  as the sum of the products in index order, each product and each sum rounded.
\<close>

function bit_length :: "int \<Rightarrow> nat" where
  "bit_length n = (if n \<le> 0 then 0 else Suc (bit_length (n div 2)))"
  by pat_completeness auto
termination
  by (relation "measure nat") auto

definition floor_log2 :: "real \<Rightarrow> int" where
  "floor_log2 x =
     (if 1 \<le> x then int (bit_length \<lfloor>x\<rfloor>) - 1
      else (let k = int (bit_length \<lfloor>1 / x\<rfloor>) - 1
            in if 1 / x = 2 powi k then - k else - (k + 1)))"

definition round_pos :: "real \<Rightarrow> real" where
  "round_pos x =
     (let ulp = 2 powi (max (floor_log2 x - 52) (- 1074));
          q = x / ulp;
          f = \<lfloor>q\<rfloor>;
          r = q - of_int f
      in (if r < 1 / 2 then of_int f
          else if 1 / 2 < r then of_int (f + 1)
          else if even f then of_int f else of_int (f + 1)) * ulp)"

definition rnd :: "real \<Rightarrow> real" where
  "rnd x = (if x = 0 then 0 else if x < 0 then - round_pos (- x) else round_pos x)"
















section \<open>Properties of the planner\<close>

text \<open>
  Claim C3. For every query, and with or without a store attached, \<open>plan\<close> returns exactly
  five subtasks with ids 1 to 5 in order: three search subtasks whose queries are the
  query itself, the query after \<open>recent trends\<close> and the query after \<open>expert analysis\<close>,
  a summarize subtask with prerequisites 1, 2, 3 and a write subtask with prerequisite 4.
  The list depends on the query alone: neither the store nor the clock changes it.
\<close>

theorem plan_five_subtasks:
  "length (fst (plan kg query now1 now2)) = 5
   \<and> map st_id (fst (plan kg query now1 now2)) = [1, 2, 3, 4, 5]
   \<and> map st_type (fst (plan kg query now1 now2))
       = [''search'', ''search'', ''search'', ''summarize'', ''write'']
   \<and> map st_query (fst (plan kg query now1 now2))
       = [Some query, Some (''recent trends '' @ query), Some (''expert analysis '' @ query),
          None, None]
   \<and> map st_depends_on (fst (plan kg query now1 now2))
       = [None, None, None, Some [1, 2, 3], Some [4]]
   \<and> fst (plan kg query now1 now2) = fst (plan kg' query now1' now2')"
  by (simp add: plan_def decompose_query_def Let_def)

section \<open>Properties of the episodic store\<close>

declare str_nat.simps [simp del]

lemma digit_char_inj: "a < 10 \<Longrightarrow> b < 10 \<Longrightarrow> digit_char a = digit_char b \<Longrightarrow> a = b"
proof -
  assume a: "a < 10" and b: "b < 10" and e: "digit_char a = digit_char b"
  have "(''0123456789'' ! a = ''0123456789'' ! b) = (a = b)"
    by (rule nth_eq_iff_index_eq) (use a b in simp_all)
  with e show ?thesis by (simp only: digit_char_def)
qed

lemma digit_char_not_underscore: "d < 10 \<Longrightarrow> digit_char d \<noteq> CHR ''_''"
proof -
  assume d: "d < 10"
  have "''0123456789'' ! d \<in> set ''0123456789''"
    by (rule nth_mem) (use d in simp)
  then have "digit_char d \<in> set ''0123456789''" by (simp only: digit_char_def)
  then show ?thesis by auto
qed

lemma str_nat_no_underscore: "CHR ''_'' \<notin> set (str_nat n)"
proof (induction n rule: str_nat.induct)
  case (1 n)
  show ?case
  proof (cases "n < 10")
    case True
    then show ?thesis using digit_char_not_underscore [of n] by (simp add: str_nat.simps [of n])
  next
    case False
    then show ?thesis
      using 1 digit_char_not_underscore [of "n mod 10"] by (simp add: str_nat.simps [of n])
  qed
qed

lemma str_nat_not_Nil: "str_nat n \<noteq> []"
  by (simp add: str_nat.simps [of n])

lemma str_nat_inj: "str_nat m = str_nat n \<Longrightarrow> m = n"
proof (induction m arbitrary: n rule: str_nat.induct)
  case (1 m)
  show ?case
  proof (cases "m < 10")
    case m: True
    show ?thesis
    proof (cases "n < 10")
      case True
      with m 1(2) have "digit_char m = digit_char n"
        by (simp add: str_nat.simps [of m] str_nat.simps [of n])
      with m True show ?thesis by (rule digit_char_inj)
    next
      case False
      with m 1(2) str_nat_not_Nil [of "n div 10"] show ?thesis
        by (simp add: str_nat.simps [of m] str_nat.simps [of n])
    qed
  next
    case m: False
    show ?thesis
    proof (cases "n < 10")
      case True
      with m 1(2) str_nat_not_Nil [of "m div 10"] show ?thesis
        by (simp add: str_nat.simps [of m] str_nat.simps [of n])
    next
      case False
      with m 1(2) have e: "str_nat (m div 10) = str_nat (n div 10)"
        and d: "digit_char (m mod 10) = digit_char (n mod 10)"
        by (simp_all add: str_nat.simps [of m] str_nat.simps [of n])
      from 1(1) [OF m e] have q: "m div 10 = n div 10" .
      have r: "m mod 10 = n mod 10" by (rule digit_char_inj [OF _ _ d]) simp_all
      have "m = 10 * (m div 10) + m mod 10" by simp
      also have "\<dots> = 10 * (n div 10) + n mod 10" by (simp only: q r)
      also have "\<dots> = n" by simp
      finally show ?thesis .
    qed
  qed
qed

lemma split_at_sep:
  "a @ c # x = b @ c # y \<Longrightarrow> c \<notin> set a \<Longrightarrow> c \<notin> set b \<Longrightarrow> a = b"
proof -
  assume e: "a @ c # x = b @ c # y" and a: "c \<notin> set a" and b: "c \<notin> set b"
  have "takeWhile (\<lambda>z. z \<noteq> c) (a @ c # x) = a"
    using a by (auto simp: takeWhile_tail)
  moreover have "takeWhile (\<lambda>z. z \<noteq> c) (b @ c # y) = b"
    using b by (auto simp: takeWhile_tail)
  ultimately show ?thesis using e by simp
qed

lemma session_id_str_inj: "session_id_str n ts = session_id_str m ts' \<Longrightarrow> n = m"
proof -
  assume "session_id_str n ts = session_id_str m ts'"
  then have "str_nat n @ CHR ''_'' # str_int ts = str_nat m @ CHR ''_'' # str_int ts'"
    by (simp add: session_id_str_def)
  then have "str_nat n = str_nat m"
    by (rule split_at_sep) (rule str_nat_no_underscore)+
  then show ?thesis by (rule str_nat_inj)
qed

lemma length_end_first [simp]: "length (end_first sid st t ss) = length ss"
  by (induction ss) auto

lemma length_append_to_session [simp]: "length (append_to_session sid e ss) = length ss"
  by (induction ss) auto

lemma length_sessions_log [simp]:
  "length (sessions (graph (log_agent_action kg a act d t now))) = length (sessions (graph kg))"
  by (cases "agents (graph kg) a"; cases "current_session_id kg")
     (simp_all add: log_agent_action_def Let_def)

lemma length_sessions_end [simp]:
  "length (sessions (graph (end_session kg sid st t))) = length (sessions (graph kg))"
  by (simp add: end_session_def)

lemma start_session_result:
  "start_session kg q ts t = (sid, kg') \<Longrightarrow>
     sid = session_id_str (length (sessions (graph kg)) + 1) ts
     \<and> length (sessions (graph kg')) = length (sessions (graph kg)) + 1"
  by (auto simp: start_session_def Let_def)

lemma run_ops_ids_above:
  "sid \<in> set (fst (run_ops kg ops)) \<Longrightarrow>
     \<exists>n ts. sid = session_id_str n ts \<and> length (sessions (graph kg)) < n"
proof (induction kg ops rule: run_ops.induct)
  case (1 kg)
  then show ?case by simp
next
  case (2 kg q ts t_iso ops)
  obtain s kg' where st: "start_session kg q ts t_iso = (s, kg')" by (cases "start_session kg q ts t_iso")
  note r = start_session_result [OF st]
  from 2(2) st have "sid = s \<or> sid \<in> set (fst (run_ops kg' ops))"
    by (auto split: prod.splits)
  then show ?case
  proof
    assume "sid = s"
    with r show ?thesis by auto
  next
    assume "sid \<in> set (fst (run_ops kg' ops))"
    from 2(1) [OF st [symmetric] refl this] r show ?thesis by auto
  qed
next
  case 3
  then show ?case by simp
next
  case 4
  then show ?case by simp
qed

text \<open>
  Claim C9. Whatever the store holds at the start and whatever calls follow, in whatever
  order and at whatever clock readings (equal ones included), the ids returned by the
  calls of \<open>start_session\<close> are pairwise distinct: the sequence number in the id is the
  number of sessions plus one, and no operation removes a session.
\<close>

theorem start_session_ids_distinct: "distinct (fst (run_ops kg ops))"
proof (induction kg ops rule: run_ops.induct)
  case (2 kg q ts t_iso ops)
  obtain s kg' where st: "start_session kg q ts t_iso = (s, kg')" by (cases "start_session kg q ts t_iso")
  note r = start_session_result [OF st]
  have "s \<notin> set (fst (run_ops kg' ops))"
  proof
    assume "s \<in> set (fst (run_ops kg' ops))"
    from run_ops_ids_above [OF this] obtain n ts' where
      "s = session_id_str n ts'" "length (sessions (graph kg')) < n" by blast
    with r session_id_str_inj [of "length (sessions (graph kg)) + 1" ts n ts'] show False by simp
  qed
  moreover from 2 [OF st [symmetric] refl] have "distinct (fst (run_ops kg' ops))" .
  ultimately show ?case using st by (auto split: prod.splits)
qed simp_all



text \<open>
  Claim C7. After \<open>log_agent_action\<close> the agent has an entry. If it had none, the entry has
  count 1 and both \<open>first_seen\<close> and \<open>last_seen\<close> are the timestamp of the call; if it had
  one, the count is one more, \<open>last_seen\<close> is the timestamp of the call and every other field,
  \<open>first_seen\<close> included, is as before. The timestamp of the call is the one given, or the
  clock reading when none is given.
\<close>

theorem log_agent_action_stats:
  "agents (graph (log_agent_action kg agent act dat timestamp now)) agent =
     Some (case agents (graph kg) agent of
             None \<Rightarrow> \<lparr>first_seen = (case timestamp of None \<Rightarrow> now | Some t \<Rightarrow> t),
                       action_count = 1,
                       last_seen = Some (case timestamp of None \<Rightarrow> now | Some t \<Rightarrow> t)\<rparr>
           | Some st \<Rightarrow> st\<lparr>action_count := action_count st + 1,
                           last_seen := Some (case timestamp of None \<Rightarrow> now | Some t \<Rightarrow> t)\<rparr>)"
  by (cases "agents (graph kg) agent"; cases "current_session_id kg") (simp_all add: log_agent_action_def Let_def)


section \<open>Properties of heuristic summarization\<close>

lemma extend_all_concat: "extend_all acc xss = acc @ concat xss"
  by (induction xss arbitrary: acc) simp_all

lemma findings_loop_map:
  "findings_loop fs ss rs =
     (fs @ map finding_of rs, ss @ map source_of (filter (\<lambda>r. get_or (url r) [] \<noteq> []) rs))"
  by (induction rs arbitrary: fs ss) simp_all

lemma synthesize_information_fields:
  "key_findings (synthesize_information rs) = PList (map finding_of (take 10 (concat rs)))"
  "sources (synthesize_information rs) =
     take 15 (map source_of (filter (\<lambda>r. get_or (url r) [] \<noteq> []) (take 10 (concat rs))))"
  "synthesis_method (synthesize_information rs) = ''heuristic_extraction''"
  "source_count (synthesize_information rs) = int (length (concat rs))"
  by (simp_all add: synthesize_information_def extend_all_concat findings_loop_map Let_def)

text \<open>
  Claim C6. Heuristic summarization turns the first ten results of the flattened input, in
  their order of arrival, into one finding each: the point is the snippet cut to 200
  characters (empty without a snippet), the source is the title (\<open>Unknown\<close> without one)
  and the url is the result's url (empty without one). So there are \<open>min n 10\<close> findings for
  \<open>n\<close> flattened results, and the method is \<open>heuristic_extraction\<close>.
\<close>

theorem heuristic_key_findings:
  "key_findings (synthesize_information search_results) =
     PList (map (\<lambda>r. PDict [(''point'', PStr (take 200 (case snippet r of None \<Rightarrow> [] | Some t \<Rightarrow> t))),
                           (''source'', PStr (case title r of None \<Rightarrow> ''Unknown'' | Some t \<Rightarrow> t)),
                           (''url'', PStr (case url r of None \<Rightarrow> [] | Some u \<Rightarrow> u))])
                (take 10 (concat search_results)))
   \<and> length (take 10 (concat search_results)) = min (length (concat search_results)) 10
   \<and> synthesis_method (synthesize_information search_results) = ''heuristic_extraction''"
  by (simp add: synthesize_information_fields finding_of_def get_or_def)

lemma heuristic_sources_first_ten:
  "sources (synthesize_information search_results) =
     map source_of (filter (\<lambda>r. get_or (url r) [] \<noteq> []) (take 10 (concat search_results)))"
proof -
  have "length (filter (\<lambda>r. get_or (url r) [] \<noteq> []) (take 10 (concat search_results))) \<le> 10"
    by (rule order_trans [OF length_filter_le]) simp
  then show ?thesis by (simp add: synthesize_information_fields)
qed

text \<open>
  Claim C5. The sources of a heuristic summary come from the first ten flattened results
  only (the lemma above), so the cap of fifteen is never reached: of twelve results with
  twelve different non-empty URLs, the summary lists the first ten.
\<close>

theorem heuristic_sources_twelve_results:
  "length (filter (\<lambda>r. url_of r \<noteq> []) (concat [map numbered_result [1..<13]])) = 12
   \<and> distinct (map url_of (concat [map numbered_result [1..<13]]))
   \<and> map src_url (sources (synthesize_information [map numbered_result [1..<13]])) =
       map (\<lambda>i. ''https://example.org/'' @ str_nat i) [1..<11]"
  by code_simp


section \<open>Properties of the multi-source search\<close>

declare dedup_loop.simps(2) [simp del]

lemma dedup_loop_acc: "dedup_loop seen acc xs = acc @ dedup_loop seen [] xs"
proof (induction xs arbitrary: seen acc)
  case Nil
  show ?case by simp
next
  case (Cons r rs)
  show ?case
    using Cons [of "insert (url_of r) seen" "acc @ [r]"] Cons [of "insert (url_of r) seen" "[r]"]
      Cons [of seen acc]
    by (simp add: Let_def dedup_loop.simps(2))
qed

lemma dedup_loop_Cons:
  "dedup_loop seen [] (r # rs) =
     (if url_of r \<noteq> [] \<and> url_of r \<notin> seen then r # dedup_loop (insert (url_of r) seen) [] rs
      else dedup_loop seen [] rs)"
  using dedup_loop_acc [of "insert (url_of r) seen" "[r]" rs]
  by (simp add: Let_def dedup_loop.simps(2))



lemma dedup_loop_subseq: "subseq (dedup_loop seen [] xs) xs"
proof (induction xs arbitrary: seen)
  case Nil
  show ?case by simp
next
  case (Cons x xs)
  show ?case
    using Cons [of seen] Cons [of "insert (url_of x) seen"]
    by (auto simp: dedup_loop_Cons)
qed


lemma py_slice_to_take: "\<exists>m. py_slice_to n xs = take m xs"
  by (auto simp: py_slice_to_def)

lemma multi_source_search_take:
  "\<exists>m. multi_source_search self t n q mr inc =
         take m (sort_key result_key (dedup_loop {} [] (gather_results self t n q mr inc)))"
  using py_slice_to_take by (simp add: multi_source_search_def Let_def)





lemma result_key_le:
  "result_key a \<le> result_key b \<Longrightarrow>
     (search_type b = Some ''news'' \<longrightarrow> search_type a = Some ''news'')
     \<and> ((search_type a = Some ''news'') = (search_type b = Some ''news'')
          \<longrightarrow> get_or (rank a) 999 \<le> get_or (rank b) 999)"
  by (auto simp: result_key_def less_eq_prod_def split: if_splits)

text \<open>
  Claim C4. In the list returned by \<open>multi_source_search\<close>, whatever the providers yield,
  no news entry comes after an entry that is not news; of two entries of the same group the
  earlier has the smaller or equal rank (\<open>999\<close> standing for a missing rank); and the
  entries of one group and one rank stand in the order in which they were gathered.
\<close>

theorem multi_source_search_order:
  "(\<forall>i j. i < j \<and> j < length (multi_source_search self t n q mr inc) \<longrightarrow>
       (search_type (multi_source_search self t n q mr inc ! j) = Some ''news''
          \<longrightarrow> search_type (multi_source_search self t n q mr inc ! i) = Some ''news'')
       \<and> ((search_type (multi_source_search self t n q mr inc ! i) = Some ''news'')
            = (search_type (multi_source_search self t n q mr inc ! j) = Some ''news'')
          \<longrightarrow> get_or (rank (multi_source_search self t n q mr inc ! i)) 999
               \<le> get_or (rank (multi_source_search self t n q mr inc ! j)) 999))
   \<and> (\<forall>k. subseq (filter (\<lambda>r. result_key r = k) (multi_source_search self t n q mr inc))
                  (gather_results self t n q mr inc))"
proof -
  let ?all = "gather_results self t n q mr inc"
  let ?u = "dedup_loop {} [] ?all"
  let ?s = "sort_key result_key ?u"
  obtain m where out: "multi_source_search self t n q mr inc = take m ?s"
    using multi_source_search_take by blast
  have "sorted (map result_key ?s)" by (rule sorted_sort_key)
  then have "sorted (take m (map result_key ?s))" by (rule sorted_wrt_take)
  then have so: "sorted (map result_key (take m ?s))" by (simp only: take_map)
  have ord: "\<forall>i j. i < j \<and> j < length (take m ?s) \<longrightarrow>
       (search_type (take m ?s ! j) = Some ''news'' \<longrightarrow> search_type (take m ?s ! i) = Some ''news'')
       \<and> ((search_type (take m ?s ! i) = Some ''news'') = (search_type (take m ?s ! j) = Some ''news'')
          \<longrightarrow> get_or (rank (take m ?s ! i)) 999 \<le> get_or (rank (take m ?s ! j)) 999)"
  proof (intro allI impI)
    fix i j
    assume ij: "i < j \<and> j < length (take m ?s)"
    then have "map result_key (take m ?s) ! i \<le> map result_key (take m ?s) ! j"
      using so by (simp only: sorted_iff_nth_mono length_map) simp
    with ij have "result_key (take m ?s ! i) \<le> result_key (take m ?s ! j)"
      by (simp only: nth_map) (metis nth_map order.strict_trans)
    then show "(search_type (take m ?s ! j) = Some ''news'' \<longrightarrow> search_type (take m ?s ! i) = Some ''news'')
       \<and> ((search_type (take m ?s ! i) = Some ''news'') = (search_type (take m ?s ! j) = Some ''news'')
          \<longrightarrow> get_or (rank (take m ?s ! i)) 999 \<le> get_or (rank (take m ?s ! j)) 999)"
      by (rule result_key_le)
  qed
  have st: "\<forall>k. subseq (filter (\<lambda>r. result_key r = k) (take m ?s)) ?all"
  proof
    fix k
    have "prefix (take m ?s) ?s" by (rule take_is_prefix)
    then have "prefix (filter (\<lambda>r. result_key r = k) (take m ?s)) (filter (\<lambda>r. result_key r = k) ?s)"
      by (rule filter_mono_prefix)
    then have "subseq (filter (\<lambda>r. result_key r = k) (take m ?s)) (filter (\<lambda>r. result_key r = k) ?s)"
      by (rule prefix_imp_subseq)
    also have "filter (\<lambda>r. result_key r = k) ?s = filter (\<lambda>r. result_key r = k) ?u"
      by (rule sort_key_stable)
    also have "subseq (filter (\<lambda>r. result_key r = k) ?u) ?u" by (rule subseq_filter_left)
    also have "subseq ?u ?all" by (rule dedup_loop_subseq)
    finally show "subseq (filter (\<lambda>r. result_key r = k) (take m ?s)) ?all" .
  qed
  show ?thesis unfolding out by (rule conjI [OF ord st])
qed

theorem multi_source_search_order_witness:
  "length (multi_source_search demo_agent demo_web demo_news ''q'' None True) = 3
   \<and> map search_type (multi_source_search demo_agent demo_web demo_news ''q'' None True)
       = [Some ''news'', None, None]
   \<and> map rank (multi_source_search demo_agent demo_web demo_news ''q'' None True)
       = [Some 1, Some 1, Some 5]
   \<and> subseq (filter (\<lambda>r. result_key r = (0, 5))
               (multi_source_search demo_agent demo_web demo_news ''q'' None True))
            (gather_results demo_agent demo_web demo_news ''q'' None True)"
proof -
  have "map search_type (multi_source_search demo_agent demo_web demo_news ''q'' None True)
       = [Some ''news'', None, None]"
    "map rank (multi_source_search demo_agent demo_web demo_news ''q'' None True)
       = [Some 1, Some 1, Some 5]"
    by code_simp+
  moreover have "length (multi_source_search demo_agent demo_web demo_news ''q'' None True) = 3"
    by code_simp
  ultimately show ?thesis
    using multi_source_search_order [of demo_agent demo_web demo_news "''q''" None True]
    by blast
qed


section \<open>Properties of the model-assisted path\<close>

lemma py_len_findings [simp]: "py_len (key_findings (synthesize_information rs)) = Inr (min (length (concat rs)) 10)"
  by (simp add: synthesize_information_fields)




text \<open>
  The fallback is about parsing, not about the fields: an answer that parses to a JSON
  object is a success, whatever it holds. Here \<open>key_findings\<close> is a string where a list of
  findings is expected; the summary has method \<open>llm\<close> and carries the string.
\<close>

lemma summarize_accepts_odd_answer:
  "fst (summarize (agent_with (\<lambda>prompt. Inr odd_answer)) demo_json_loads
          [[numbered_result 1, numbered_result 2]] ''t1'' ''t2'')
     = Inr \<lparr>key_findings = PStr ''none'', source_count = 2,
            sources = [source_of (numbered_result 1), source_of (numbered_result 2)],
            synthesis_method = ''llm'', summary_text = Some (PStr []),
            themes = Some (PList []), credibility_notes = Some (PStr [])\<rparr>"
  by code_simp

text \<open>An answer whose \<open>key_findings\<close> has no length makes \<open>summarize\<close> itself raise, after
  the synthesis has returned.\<close>

lemma summarize_raises_on_null_findings:
  "fst (summarize (agent_with (\<lambda>prompt. Inr ''null findings'')) 
          (\<lambda>t. Inr (PDict [(''key_findings'', PNone)]))
          [[numbered_result 1]] ''t1'' ''t2'') = Inl TypeError"
  by code_simp

text \<open>The fence is cut away, with or without its label.\<close>

lemma extract_json_fenced:
  "extract_json (''Here: '' @ fence @ ''json'' @ nl @ ''{}'' @ nl @ fence @ '' bye'') = Inr ''{}''"
  by code_simp

lemma extract_json_fenced2:
  "extract_json (''Here: '' @ fence @ nl @ ''{}'' @ nl @ fence @ '' bye'') = Inr ''{}''"
  by code_simp



section \<open>Properties of the semantic store\<close>

lemma length_fill_chars [simp]: "length (fill_chars e xs) = length e"
  by (induction e xs rule: fill_chars.induct) simp_all

lemma length_marked_vector [simp]: "length (marked_vector hash text) = 128"
  by (simp add: marked_vector_def)

lemma length_simple_embedding [simp]: "length (simple_embedding ops hash text) = 128"
  by (simp add: simple_embedding_def Let_def)


















subsection \<open>Facts of the double arithmetic\<close>

declare bit_length.simps [simp del]













subsection \<open>The embedding of the text k, computed\<close>

lemmas rnd_eval = rnd_def round_pos_def floor_log2_def Let_def bit_length.simps

lemma rnd_zero [simp]: "rnd 0 = 0"
  by (simp add: rnd_def)

lemma rnd_one [simp]: "rnd 1 = 1"
  by (simp add: rnd_eval)
























subsection \<open>Store, then search\<close>







subsection \<open>The invariants of the store\<close>














end
